theory Spec2Isabelle
  imports Main
begin

section \<open>The configuration resolver of tagpr (config.go)\<close>

text \<open>
  A shallow embedding of \<^verbatim>\<open>config.go\<close>. The resolver's struct is a record, a nil
  pointer is \<open>None\<close>, a Go \<open>error\<close> result is an \<open>error option\<close> (\<open>None\<close> is \<open>nil\<close>)
  or the left summand of a sum. The process environment, the file system and the
  \<open>gitconfig\<close> package are outside the file: they are a record of operations over an
  arbitrary world \<open>'w\<close>, so every theorem holds for every behaviour they may have.
  Each call to one of them that reaches the store or the backing file is also written
  to a list of events, so that "is not queried" and "retries once" are statements
  about that list.
\<close>

subsection \<open>Constants\<close>

definition defaultConfigFile :: string where
  "defaultConfigFile = ''.tagpr''"

definition defaultConfigContent :: string where
  \<open>defaultConfigContent =
     ''# config file for the tagpr in git config format\<newline>'' @
     ''# The tagpr generates the initial configuration, which you can rewrite to suit your environment.\<newline>'' @
     ''# CONFIGURATIONS:\<newline>'' @
     ''#   tagpr.releaseBranch\<newline>'' @
     ''#       Generally, it is "main." It is the branch for releases. The pcpr tracks this branch,\<newline>'' @
     ''#       creates or updates a pull request as a release candidate, or tags when they are merged.\<newline>'' @
     ''#\<newline>'' @
     ''#   tagpr.versionFile\<newline>'' @
     ''#       Versioning file containing the semantic version needed to be updated at release.\<newline>'' @
     ''#       It will be synchronized with the "git tag".\<newline>'' @
     ''#       Often this is a meta-information file such as gemspec, setup.cfg, package.json, etc.\<newline>'' @
     ''#       Sometimes the source code file, such as version.go or Bar.pm, is used.\<newline>'' @
     ''#       If you do not want to use versioning files but only git tags, specify the "-" string here.\<newline>'' @
     ''#       You can specify multiple version files by comma separated strings.\<newline>'' @
     ''#\<newline>'' @
     ''#   tagpr.vPrefix\<newline>'' @
     ''#       Flag whether or not v-prefix is added to semver when git tagging. (e.g. v1.2.3 if true)\<newline>'' @
     ''#       This is only a tagging convention, not how it is described in the version file.\<newline>'' @
     ''#\<newline>'' @
     ''#   tagpr.command (Optional)\<newline>'' @
     ''#       Command to change files just before release.\<newline>'' @
     ''#\<newline>'' @
     ''#   tagpr.tmplate (Optional)\<newline>'' @
     ''#       Pull request template in go template format\<newline>'' @
     ''[tagpr]\<newline>''\<close>

definition envReleaseBranch :: string where
  "envReleaseBranch = ''TAGPR_RELEASE_BRANCH''"

definition envVersionFile :: string where
  "envVersionFile = ''TAGPR_VERSION_FILE''"

definition envVPrefix :: string where
  "envVPrefix = ''TAGPR_VPREFIX''"

definition envCommand :: string where
  "envCommand = ''TAGPR_COMMAND''"

definition envTemplate :: string where
  "envTemplate = ''TAGPR_TEMPLATE''"

definition configReleaseBranch :: string where
  "configReleaseBranch = ''tagpr.releaseBranch''"

definition configVersionFile :: string where
  "configVersionFile = ''tagpr.versionFile''"

definition configVPrefix :: string where
  "configVPrefix = ''tagpr.vPrefix''"

definition configCommand :: string where
  "configCommand = ''tagpr.command''"

definition configTemplate :: string where
  "configTemplate = ''tagpr.template''"

subsection \<open>Data\<close>

datatype configSource = srcEnv | srcConfigFile | srcDetect

record configValue =
  cv_value :: string
  cv_source :: configSource

text \<open>The handle \<open>gitconfig.Config\<close>: the path of the git binary and the file it is bound to.\<close>

record gitconfig_Config =
  GitPath :: string
  File :: string

record config =
  releaseBranch :: "configValue option"
  versionFile :: "configValue option"
  command :: "configValue option"
  template :: "configValue option"
  vPrefix :: "bool option"
  conf :: string
  gitconfig :: gitconfig_Config

text \<open>
  Errors. \<open>NumError fn num\<close> is the \<open>*strconv.NumError\<close> with \<open>Err = ErrSyntax\<close> that
  \<open>strconv.ParseBool\<close> returns; \<open>ExternalError msg\<close> is any error of the operating system
  or of the \<open>gitconfig\<close> package.
\<close>

datatype error = NumError string string | ExternalError string

subsection \<open>The standard library's boolean conversions\<close>

text \<open>\<open>strconv.ParseBool\<close> and \<open>strconv.FormatBool\<close> of the Go standard library.\<close>

definition ParseBool :: "string \<Rightarrow> error + bool" where
  "ParseBool str =
     (if str = ''1'' \<or> str = ''t'' \<or> str = ''T'' \<or> str = ''true'' \<or> str = ''TRUE'' \<or> str = ''True''
        then Inr True
      else if str = ''0'' \<or> str = ''f'' \<or> str = ''F'' \<or> str = ''false'' \<or> str = ''FALSE'' \<or> str = ''False''
        then Inr False
      else Inl (NumError ''ParseBool'' str))"

definition FormatBool :: "bool \<Rightarrow> string" where
  "FormatBool b = (if b then ''true'' else ''false'')"

subsection \<open>The outside world\<close>

text \<open>
  The operations the file calls and does not define. Reads (\<open>os.Getenv\<close>,
  \<open>gitconfig.Get\<close>, \<open>gitconfig.Bool\<close>, the helper \<open>exists\<close>) return a result and leave the
  world as it is; writes (\<open>gitconfig.Do\<close>, \<open>os.RemoveAll\<close>, \<open>os.WriteFile\<close>) return a
  result and the next world.
\<close>

record 'w sys =
  os_Getenv :: "string \<Rightarrow> 'w \<Rightarrow> string"
  gitconfig_Get :: "gitconfig_Config \<Rightarrow> string \<Rightarrow> 'w \<Rightarrow> error + string"
  gitconfig_Bool :: "gitconfig_Config \<Rightarrow> string \<Rightarrow> 'w \<Rightarrow> error + bool"
  gitconfig_Do :: "gitconfig_Config \<Rightarrow> string \<Rightarrow> string \<Rightarrow> 'w \<Rightarrow> (error + string) \<times> 'w"
  exists :: "string \<Rightarrow> 'w \<Rightarrow> bool"
  os_RemoveAll :: "string \<Rightarrow> 'w \<Rightarrow> error option \<times> 'w"
  os_WriteFile :: "string \<Rightarrow> string \<Rightarrow> nat \<Rightarrow> 'w \<Rightarrow> error option \<times> 'w"

text \<open>
  The calls a function made, in order: store lookups with their key, and file and store
  writes with their arguments and the error they returned.
\<close>

datatype event =
    EvGet string
  | EvBool string
  | EvExists string bool
  | EvRemoveAll string "error option"
  | EvWriteFile string string nat "error option"
  | EvDo string string "error option"

fun isDo :: "event \<Rightarrow> bool" where
  "isDo (EvDo k v r) = True"
| "isDo _ = False"

subsection \<open>Values and their accessors\<close>

definition String :: "configValue \<Rightarrow> string" where
  "String cv = (if cv_value cv = ''-'' then '''' else cv_value cv)"

definition Empty :: "configValue \<Rightarrow> bool" where
  "Empty cv = (String cv = '''')"

definition ReleaseBranch :: "config \<Rightarrow> configValue option" where
  "ReleaseBranch cfg = releaseBranch cfg"

definition VersionFile :: "config \<Rightarrow> configValue option" where
  "VersionFile cfg = versionFile cfg"

definition Command :: "config \<Rightarrow> configValue option" where
  "Command cfg = command cfg"

definition Template :: "config \<Rightarrow> configValue option" where
  "Template cfg = template cfg"

subsection \<open>Reload\<close>

text \<open>
  \<open>Reload\<close> mutates the resolver and returns an error: here it returns the error, the
  resolver after the call and the store lookups it made. The \<open>return err\<close> of the
  boolean setting is the \<open>Inl\<close> branch: the two settings after it are not reached.
\<close>

definition Reload :: "'w sys \<Rightarrow> 'w \<Rightarrow> config \<Rightarrow> error option \<times> config \<times> event list" where
  "Reload ops w cfg0 =
     (let
        (cfg1, tr1) =
          (let rb = os_Getenv ops envReleaseBranch w in
           if rb \<noteq> '''' then
             (cfg0\<lparr>releaseBranch := Some \<lparr>cv_value = rb, cv_source = srcEnv\<rparr>\<rparr>, [])
           else
             (case gitconfig_Get ops (gitconfig cfg0) configReleaseBranch w of
                Inr out \<Rightarrow>
                  (cfg0\<lparr>releaseBranch := Some \<lparr>cv_value = out, cv_source = srcConfigFile\<rparr>\<rparr>,
                   [EvGet configReleaseBranch])
              | Inl err \<Rightarrow> (cfg0, [EvGet configReleaseBranch])));
        (cfg2, tr2) =
          (let rb = os_Getenv ops envVersionFile w in
           if rb \<noteq> '''' then
             (cfg1\<lparr>versionFile := Some \<lparr>cv_value = rb, cv_source = srcEnv\<rparr>\<rparr>, tr1)
           else
             (case gitconfig_Get ops (gitconfig cfg1) configVersionFile w of
                Inr out \<Rightarrow>
                  (cfg1\<lparr>versionFile := Some \<lparr>cv_value = out, cv_source = srcConfigFile\<rparr>\<rparr>,
                   tr1 @ [EvGet configVersionFile])
              | Inl err \<Rightarrow> (cfg1, tr1 @ [EvGet configVersionFile])))
      in
        case
          (let vPrefix' = os_Getenv ops envVPrefix w in
           if vPrefix' \<noteq> '''' then
             (case ParseBool vPrefix' of
                Inl err \<Rightarrow> Inl err
              | Inr b \<Rightarrow> Inr (cfg2\<lparr>vPrefix := Some b\<rparr>, tr2))
           else
             (case gitconfig_Bool ops (gitconfig cfg2) configVPrefix w of
                Inr b \<Rightarrow> Inr (cfg2\<lparr>vPrefix := Some b\<rparr>, tr2 @ [EvBool configVPrefix])
              | Inl err \<Rightarrow> Inr (cfg2, tr2 @ [EvBool configVPrefix])))
        of
          Inl err \<Rightarrow> (Some err, cfg2, tr2)
        | Inr (cfg3, tr3) \<Rightarrow>
            (let
               (cfg4, tr4) =
                 (let command' = os_Getenv ops envCommand w in
                  if command' \<noteq> '''' then
                    (cfg3\<lparr>command := Some \<lparr>cv_value = command', cv_source = srcEnv\<rparr>\<rparr>, tr3)
                  else
                    (case gitconfig_Get ops (gitconfig cfg3) configCommand w of
                       Inr command' \<Rightarrow>
                         (cfg3\<lparr>command := Some \<lparr>cv_value = command', cv_source = srcConfigFile\<rparr>\<rparr>,
                          tr3 @ [EvGet configCommand])
                     | Inl err \<Rightarrow> (cfg3, tr3 @ [EvGet configCommand])));
               (cfg5, tr5) =
                 (let tmpl = os_Getenv ops envTemplate w in
                  if tmpl \<noteq> '''' then
                    (cfg4\<lparr>template := Some \<lparr>cv_value = tmpl, cv_source = srcEnv\<rparr>\<rparr>, tr4)
                  else
                    (case gitconfig_Get ops (gitconfig cfg4) configTemplate w of
                       Inr template' \<Rightarrow>
                         (cfg4\<lparr>template := Some \<lparr>cv_value = template', cv_source = srcConfigFile\<rparr>\<rparr>,
                          tr4 @ [EvGet configTemplate])
                     | Inl err \<Rightarrow> (cfg4, tr4 @ [EvGet configTemplate])))
             in (None, cfg5, tr5)))"

text \<open>
  \<open>newConfig\<close>: every field nil, the fixed file name, a store handle on it, then one \<open>Reload\<close>.
\<close>

definition newConfig :: "'w sys \<Rightarrow> string \<Rightarrow> 'w \<Rightarrow> error option \<times> config \<times> event list" where
  "newConfig ops gitPath w =
     Reload ops w
       \<lparr>releaseBranch = None, versionFile = None, command = None, template = None,
        vPrefix = None, conf = defaultConfigFile,
        gitconfig = \<lparr>GitPath = gitPath, File = defaultConfigFile\<rparr>\<rparr>"

subsection \<open>Writing\<close>

text \<open>\<open>initializeFile\<close>: remove whatever is at the path, then write the default content (mode 0666).\<close>

definition initializeFile :: "'w sys \<Rightarrow> config \<Rightarrow> 'w \<Rightarrow> error option \<times> 'w \<times> event list" where
  "initializeFile ops cfg w =
     (case os_RemoveAll ops (conf cfg) w of
        (Some err, w1) \<Rightarrow> (Some err, w1, [EvRemoveAll (conf cfg) (Some err)])
      | (None, w1) \<Rightarrow>
          (case os_WriteFile ops (conf cfg) defaultConfigContent 438 w1 of
             (r, w2) \<Rightarrow>
               (r, w2,
                [EvRemoveAll (conf cfg) None,
                 EvWriteFile (conf cfg) defaultConfigContent 438 r])))"

text \<open>
  \<open>set\<close> (named \<open>set_config\<close> here, \<open>set\<close> being the set of a list in HOL). The result of a
  store write is reduced to its error, as the source drops the output.
\<close>

definition errOf :: "error + 'a \<Rightarrow> error option" where
  "errOf r = (case r of Inl err \<Rightarrow> Some err | Inr _ \<Rightarrow> None)"

definition set_config ::
    "'w sys \<Rightarrow> config \<Rightarrow> string \<Rightarrow> string \<Rightarrow> 'w \<Rightarrow> error option \<times> 'w \<times> event list" where
  "set_config ops cfg key value0 w =
     (let ex = exists ops (conf cfg) w in
      case (if \<not> ex then initializeFile ops cfg w else (None, w, [])) of
        (Some err, w1, tr1) \<Rightarrow> (Some err, w1, EvExists (conf cfg) ex # tr1)
      | (None, w1, tr1) \<Rightarrow>
          (let value1 = (if value0 = '''' then ''-'' else value0) in
           case gitconfig_Do ops (gitconfig cfg) key value1 w1 of
             (Inr out, w2) \<Rightarrow>
               (None, w2, EvExists (conf cfg) ex # tr1 @ [EvDo key value1 None])
           | (Inl err, w2) \<Rightarrow>
               (case initializeFile ops cfg w2 of
                  (Some err', w3, tr3) \<Rightarrow>
                    (Some err', w3,
                     EvExists (conf cfg) ex # tr1 @ [EvDo key value1 (Some err)] @ tr3)
                | (None, w3, tr3) \<Rightarrow>
                    (case gitconfig_Do ops (gitconfig cfg) key value1 w3 of
                       (r, w4) \<Rightarrow>
                         (errOf r, w4,
                          EvExists (conf cfg) ex # tr1 @ [EvDo key value1 (Some err)] @ tr3
                            @ [EvDo key value1 (errOf r)])))))"

text \<open>The setters: the field is assigned after \<open>set\<close> has returned no error.\<close>

definition SetRelaseBranch ::
    "'w sys \<Rightarrow> string \<Rightarrow> config \<Rightarrow> 'w \<Rightarrow> error option \<times> config \<times> 'w \<times> event list" where
  "SetRelaseBranch ops br cfg w =
     (case set_config ops cfg configReleaseBranch br w of
        (Some err, w', tr) \<Rightarrow> (Some err, cfg, w', tr)
      | (None, w', tr) \<Rightarrow>
          (None, cfg\<lparr>releaseBranch := Some \<lparr>cv_value = br, cv_source = srcDetect\<rparr>\<rparr>, w', tr))"

definition SetVersionFile ::
    "'w sys \<Rightarrow> string \<Rightarrow> config \<Rightarrow> 'w \<Rightarrow> error option \<times> config \<times> 'w \<times> event list" where
  "SetVersionFile ops fpath cfg w =
     (case set_config ops cfg configVersionFile fpath w of
        (Some err, w', tr) \<Rightarrow> (Some err, cfg, w', tr)
      | (None, w', tr) \<Rightarrow>
          (None, cfg\<lparr>versionFile := Some \<lparr>cv_value = fpath, cv_source = srcDetect\<rparr>\<rparr>, w', tr))"

definition SetVPrefix ::
    "'w sys \<Rightarrow> bool \<Rightarrow> config \<Rightarrow> 'w \<Rightarrow> error option \<times> config \<times> 'w \<times> event list" where
  "SetVPrefix ops vPrefix' cfg w =
     (case set_config ops cfg configVPrefix (FormatBool vPrefix') w of
        (Some err, w', tr) \<Rightarrow> (Some err, cfg, w', tr)
      | (None, w', tr) \<Rightarrow> (None, cfg\<lparr>vPrefix := Some vPrefix'\<rparr>, w', tr))"

subsection \<open>What one setting's lookup yields\<close>

text \<open>
  The five blocks of \<open>Reload\<close> have one shape. \<open>pickString e g old\<close> is the field a string
  setting ends with when its environment variable reads \<open>e\<close>, the store answers \<open>g\<close> and the
  field held \<open>old\<close>; \<open>pickBool\<close> is the same for the boolean setting, with the parse error
  as \<open>Inl\<close>; \<open>asked e ev\<close> is the store lookup the block makes. \<open>stepString\<close> and \<open>stepBool\<close>
  are the blocks themselves, with the trace so far. \<open>Reload\<close> is proved equal to their
  composition below (\<open>Reload_steps\<close>, \<open>Reload_closed\<close>).
\<close>

definition pickString :: "string \<Rightarrow> error + string \<Rightarrow> configValue option \<Rightarrow> configValue option" where
  "pickString e g old =
     (if e \<noteq> '''' then Some \<lparr>cv_value = e, cv_source = srcEnv\<rparr>
      else case g of
             Inr out \<Rightarrow> Some \<lparr>cv_value = out, cv_source = srcConfigFile\<rparr>
           | Inl err \<Rightarrow> old)"

definition pickBool :: "string \<Rightarrow> error + bool \<Rightarrow> bool option \<Rightarrow> error + bool option" where
  "pickBool e g old =
     (if e \<noteq> '''' then (case ParseBool e of Inl err \<Rightarrow> Inl err | Inr b \<Rightarrow> Inr (Some b))
      else case g of Inr b \<Rightarrow> Inr (Some b) | Inl err \<Rightarrow> Inr old)"

definition asked :: "string \<Rightarrow> event \<Rightarrow> event list" where
  "asked e ev = (if e \<noteq> '''' then [] else [ev])"

definition stepString ::
    "string \<Rightarrow> error + string \<Rightarrow> string \<Rightarrow> (configValue option \<Rightarrow> config) \<Rightarrow> config \<Rightarrow> event list
      \<Rightarrow> config \<times> event list" where
  "stepString e g key upd cfg tr =
     (if e \<noteq> '''' then (upd (Some \<lparr>cv_value = e, cv_source = srcEnv\<rparr>), tr)
      else (case g of
              Inr out \<Rightarrow> (upd (Some \<lparr>cv_value = out, cv_source = srcConfigFile\<rparr>), tr @ [EvGet key])
            | Inl err \<Rightarrow> (cfg, tr @ [EvGet key])))"

definition stepBool ::
    "string \<Rightarrow> error + bool \<Rightarrow> config \<Rightarrow> event list \<Rightarrow> error + config \<times> event list" where
  "stepBool e g cfg tr =
     (if e \<noteq> '''' then
        (case ParseBool e of
           Inl err \<Rightarrow> Inl err
         | Inr b \<Rightarrow> Inr (cfg\<lparr>vPrefix := Some b\<rparr>, tr))
      else
        (case g of
           Inr b \<Rightarrow> Inr (cfg\<lparr>vPrefix := Some b\<rparr>, tr @ [EvBool configVPrefix])
         | Inl err \<Rightarrow> Inr (cfg, tr @ [EvBool configVPrefix])))"

text \<open>The first store write of a trace, and the events after it.\<close>

fun afterFirstDo :: "event list \<Rightarrow> (event \<times> event list) option" where
  "afterFirstDo [] = None"
| "afterFirstDo (ev # evs) = (if isDo ev then Some (ev, evs) else afterFirstDo evs)"

subsection \<open>An in-memory world\<close>

text \<open>
  One instance of the outside world, to run the model on concrete inputs: the environment
  and the store are association lists, the backing file exists or not, and the next
  \<open>m_failing\<close> store writes fail. Removing or rewriting the file empties the store.
\<close>

record mem =
  m_env :: "(string \<times> string) list"
  m_exists :: bool
  m_kv :: "(string \<times> string) list"
  m_failing :: nat

definition memsys :: "mem sys" where
  "memsys =
     \<lparr>os_Getenv = (\<lambda>k w. case map_of (m_env w) k of None \<Rightarrow> '''' | Some v \<Rightarrow> v),
      gitconfig_Get =
        (\<lambda>h k w. case map_of (m_kv w) k of
                    None \<Rightarrow> Inl (ExternalError ''exit status 1'')
                  | Some v \<Rightarrow> Inr v),
      gitconfig_Bool =
        (\<lambda>h k w. case map_of (m_kv w) k of
                    None \<Rightarrow> Inl (ExternalError ''exit status 1'')
                  | Some v \<Rightarrow> ParseBool v),
      gitconfig_Do =
        (\<lambda>h k v w.
           if 0 < m_failing w
           then (Inl (ExternalError ''exit status 255''), w\<lparr>m_failing := m_failing w - 1\<rparr>)
           else (Inr '''', w\<lparr>m_kv := (k, v) # m_kv w\<rparr>)),
      exists = (\<lambda>p w. m_exists w),
      os_RemoveAll = (\<lambda>p w. (None, w\<lparr>m_exists := False, m_kv := []\<rparr>)),
      os_WriteFile = (\<lambda>p c perm w. (None, w\<lparr>m_exists := True, m_kv := []\<rparr>))\<rparr>"

definition world0 :: "(string \<times> string) list \<Rightarrow> (string \<times> string) list \<Rightarrow> nat \<Rightarrow> mem" where
  "world0 env kv n = \<lparr>m_env = env, m_exists = True, m_kv = kv, m_failing = n\<rparr>"

definition emptyConfig :: config where
  "emptyConfig =
     \<lparr>releaseBranch = None, versionFile = None, command = None, template = None,
      vPrefix = None, conf = defaultConfigFile,
      gitconfig = \<lparr>GitPath = ''git'', File = defaultConfigFile\<rparr>\<rparr>"

text \<open>Worlds and a resolver for the concrete runs below.\<close>

definition envWorld :: mem where
  "envWorld =
     world0
       [(envReleaseBranch, ''main''), (envVersionFile, ''version.go''), (envCommand, ''make''),
        (envTemplate, ''tmpl.md'')]
       [(configReleaseBranch, ''develop'')] 0"

definition badBoolWorld :: mem where
  "badBoolWorld = world0 [(envVPrefix, ''notabool'')] [(configVersionFile, ''version.go'')] 0"

definition detectedConfig :: config where
  "detectedConfig =
     emptyConfig\<lparr>releaseBranch := Some \<lparr>cv_value = ''main'', cv_source = srcDetect\<rparr>\<rparr>"

section \<open>Properties\<close>

subsection \<open>Reload as a composition of its five blocks\<close>

lemma Reload_steps:
  "Reload ops w cfg0 =
    (let (cfg1, tr1) = stepString (os_Getenv ops envReleaseBranch w)
            (gitconfig_Get ops (gitconfig cfg0) configReleaseBranch w) configReleaseBranch
            (\<lambda>v. cfg0\<lparr>releaseBranch := v\<rparr>) cfg0 [];
         (cfg2, tr2) = stepString (os_Getenv ops envVersionFile w)
            (gitconfig_Get ops (gitconfig cfg1) configVersionFile w) configVersionFile
            (\<lambda>v. cfg1\<lparr>versionFile := v\<rparr>) cfg1 tr1
     in case stepBool (os_Getenv ops envVPrefix w)
               (gitconfig_Bool ops (gitconfig cfg2) configVPrefix w) cfg2 tr2 of
          Inl err \<Rightarrow> (Some err, cfg2, tr2)
        | Inr (cfg3, tr3) \<Rightarrow>
           (let (cfg4, tr4) = stepString (os_Getenv ops envCommand w)
                  (gitconfig_Get ops (gitconfig cfg3) configCommand w) configCommand
                  (\<lambda>v. cfg3\<lparr>command := v\<rparr>) cfg3 tr3;
                (cfg5, tr5) = stepString (os_Getenv ops envTemplate w)
                  (gitconfig_Get ops (gitconfig cfg4) configTemplate w) configTemplate
                  (\<lambda>v. cfg4\<lparr>template := v\<rparr>) cfg4 tr4
            in (None, cfg5, tr5)))"
  unfolding Reload_def stepString_def stepBool_def Let_def append_Nil ..

lemma stepString_releaseBranch:
  "stepString e g key (\<lambda>v. cfg\<lparr>releaseBranch := v\<rparr>) cfg tr =
     (cfg\<lparr>releaseBranch := pickString e g (releaseBranch cfg)\<rparr>, tr @ asked e (EvGet key))"
  by (simp add: stepString_def pickString_def asked_def split: sum.splits)

lemma stepString_versionFile:
  "stepString e g key (\<lambda>v. cfg\<lparr>versionFile := v\<rparr>) cfg tr =
     (cfg\<lparr>versionFile := pickString e g (versionFile cfg)\<rparr>, tr @ asked e (EvGet key))"
  by (simp add: stepString_def pickString_def asked_def split: sum.splits)

lemma stepString_command:
  "stepString e g key (\<lambda>v. cfg\<lparr>command := v\<rparr>) cfg tr =
     (cfg\<lparr>command := pickString e g (command cfg)\<rparr>, tr @ asked e (EvGet key))"
  by (simp add: stepString_def pickString_def asked_def split: sum.splits)

lemma stepString_template:
  "stepString e g key (\<lambda>v. cfg\<lparr>template := v\<rparr>) cfg tr =
     (cfg\<lparr>template := pickString e g (template cfg)\<rparr>, tr @ asked e (EvGet key))"
  by (simp add: stepString_def pickString_def asked_def split: sum.splits)

lemma stepBool_eq:
  "stepBool e g cfg tr =
     (case pickBool e g (vPrefix cfg) of
        Inl err \<Rightarrow> Inl err
      | Inr vp \<Rightarrow> Inr (cfg\<lparr>vPrefix := vp\<rparr>, tr @ asked e (EvBool configVPrefix)))"
  by (simp add: stepBool_def pickBool_def asked_def split: sum.splits)

lemma Reload_closed:
  "Reload ops w cfg =
     (case pickBool (os_Getenv ops envVPrefix w) (gitconfig_Bool ops (gitconfig cfg) configVPrefix w)
             (vPrefix cfg) of
        Inl err \<Rightarrow>
          (Some err,
           cfg\<lparr>releaseBranch :=
                 pickString (os_Getenv ops envReleaseBranch w)
                   (gitconfig_Get ops (gitconfig cfg) configReleaseBranch w) (releaseBranch cfg),
               versionFile :=
                 pickString (os_Getenv ops envVersionFile w)
                   (gitconfig_Get ops (gitconfig cfg) configVersionFile w) (versionFile cfg)\<rparr>,
           asked (os_Getenv ops envReleaseBranch w) (EvGet configReleaseBranch)
             @ asked (os_Getenv ops envVersionFile w) (EvGet configVersionFile))
      | Inr vp \<Rightarrow>
          (None,
           cfg\<lparr>releaseBranch :=
                 pickString (os_Getenv ops envReleaseBranch w)
                   (gitconfig_Get ops (gitconfig cfg) configReleaseBranch w) (releaseBranch cfg),
               versionFile :=
                 pickString (os_Getenv ops envVersionFile w)
                   (gitconfig_Get ops (gitconfig cfg) configVersionFile w) (versionFile cfg),
               vPrefix := vp,
               command :=
                 pickString (os_Getenv ops envCommand w)
                   (gitconfig_Get ops (gitconfig cfg) configCommand w) (command cfg),
               template :=
                 pickString (os_Getenv ops envTemplate w)
                   (gitconfig_Get ops (gitconfig cfg) configTemplate w) (template cfg)\<rparr>,
           asked (os_Getenv ops envReleaseBranch w) (EvGet configReleaseBranch)
             @ asked (os_Getenv ops envVersionFile w) (EvGet configVersionFile)
             @ asked (os_Getenv ops envVPrefix w) (EvBool configVPrefix)
             @ asked (os_Getenv ops envCommand w) (EvGet configCommand)
             @ asked (os_Getenv ops envTemplate w) (EvGet configTemplate)))"
  by (simp add: Reload_steps stepString_releaseBranch stepString_versionFile stepString_command
      stepString_template stepBool_eq split: sum.splits)

lemma pickString_idem: "pickString e g (pickString e g old) = pickString e g old"
  by (simp add: pickString_def split: sum.splits)

lemma pickBool_idem: "pickBool e g old = Inr vp \<Longrightarrow> pickBool e g vp = Inr vp"
  by (auto simp add: pickBool_def split: sum.splits if_splits)

lemma pickBool_Inl: "pickBool e g old = Inl err \<Longrightarrow> pickBool e g old' = Inl err"
  by (auto simp add: pickBool_def split: sum.splits if_splits)

lemma config_keys_distinct:
  "configReleaseBranch \<noteq> configVersionFile" "configReleaseBranch \<noteq> configCommand"
  "configReleaseBranch \<noteq> configTemplate" "configVersionFile \<noteq> configCommand"
  "configVersionFile \<noteq> configTemplate" "configCommand \<noteq> configTemplate"
  "configVersionFile \<noteq> configReleaseBranch" "configCommand \<noteq> configReleaseBranch"
  "configTemplate \<noteq> configReleaseBranch" "configCommand \<noteq> configVersionFile"
  "configTemplate \<noteq> configVersionFile" "configTemplate \<noteq> configCommand"
  by (simp_all add: configReleaseBranch_def configVersionFile_def configCommand_def
      configTemplate_def)

lemma pickString_env:
  "e \<noteq> '''' \<Longrightarrow> pickString e g old = Some \<lparr>cv_value = e, cv_source = srcEnv\<rparr>"
  by (simp add: pickString_def)

lemma in_asked: "x \<in> set (asked e ev) \<longleftrightarrow> e = '''' \<and> x = ev"
  by (simp add: asked_def)


subsection \<open>The fields and the trace of one Reload\<close>

lemma Reload_err:
  "fst (Reload ops w cfg) =
     (case pickBool (os_Getenv ops envVPrefix w)
             (gitconfig_Bool ops (gitconfig cfg) configVPrefix w) (vPrefix cfg) of
        Inl err \<Rightarrow> Some err
      | Inr vp \<Rightarrow> None)"
  by (simp add: Reload_closed split: sum.splits)

lemma Reload_releaseBranch:
  "releaseBranch (fst (snd (Reload ops w cfg))) =
     pickString (os_Getenv ops envReleaseBranch w)
       (gitconfig_Get ops (gitconfig cfg) configReleaseBranch w) (releaseBranch cfg)"
  by (simp add: Reload_closed split: sum.splits)

lemma Reload_versionFile:
  "versionFile (fst (snd (Reload ops w cfg))) =
     pickString (os_Getenv ops envVersionFile w)
       (gitconfig_Get ops (gitconfig cfg) configVersionFile w) (versionFile cfg)"
  by (simp add: Reload_closed split: sum.splits)

lemma Reload_vPrefix:
  "vPrefix (fst (snd (Reload ops w cfg))) =
     (case pickBool (os_Getenv ops envVPrefix w)
             (gitconfig_Bool ops (gitconfig cfg) configVPrefix w) (vPrefix cfg) of
        Inl err \<Rightarrow> vPrefix cfg
      | Inr vp \<Rightarrow> vp)"
  by (simp add: Reload_closed split: sum.splits)

lemma Reload_command:
  "command (fst (snd (Reload ops w cfg))) =
     (case pickBool (os_Getenv ops envVPrefix w)
             (gitconfig_Bool ops (gitconfig cfg) configVPrefix w) (vPrefix cfg) of
        Inl err \<Rightarrow> command cfg
      | Inr vp \<Rightarrow>
          pickString (os_Getenv ops envCommand w)
            (gitconfig_Get ops (gitconfig cfg) configCommand w) (command cfg))"
  by (simp add: Reload_closed split: sum.splits)

lemma Reload_template:
  "template (fst (snd (Reload ops w cfg))) =
     (case pickBool (os_Getenv ops envVPrefix w)
             (gitconfig_Bool ops (gitconfig cfg) configVPrefix w) (vPrefix cfg) of
        Inl err \<Rightarrow> template cfg
      | Inr vp \<Rightarrow>
          pickString (os_Getenv ops envTemplate w)
            (gitconfig_Get ops (gitconfig cfg) configTemplate w) (template cfg))"
  by (simp add: Reload_closed split: sum.splits)

lemma Reload_trace:
  "snd (snd (Reload ops w cfg)) =
     (case pickBool (os_Getenv ops envVPrefix w)
             (gitconfig_Bool ops (gitconfig cfg) configVPrefix w) (vPrefix cfg) of
        Inl err \<Rightarrow>
          asked (os_Getenv ops envReleaseBranch w) (EvGet configReleaseBranch)
            @ asked (os_Getenv ops envVersionFile w) (EvGet configVersionFile)
      | Inr vp \<Rightarrow>
          asked (os_Getenv ops envReleaseBranch w) (EvGet configReleaseBranch)
            @ asked (os_Getenv ops envVersionFile w) (EvGet configVersionFile)
            @ asked (os_Getenv ops envVPrefix w) (EvBool configVPrefix)
            @ asked (os_Getenv ops envCommand w) (EvGet configCommand)
            @ asked (os_Getenv ops envTemplate w) (EvGet configTemplate))"
  by (simp add: Reload_closed split: sum.splits)

lemma Reload_result:
  "Reload ops w cfg = (err, cfg', tr) \<Longrightarrow>
     err = fst (Reload ops w cfg) \<and> cfg' = fst (snd (Reload ops w cfg))
       \<and> tr = snd (snd (Reload ops w cfg))"
  by simp

lemmas Reload_parts =
  Reload_err Reload_releaseBranch Reload_versionFile Reload_vPrefix Reload_command
  Reload_template Reload_trace

lemmas world_defs =
  memsys_def world0_def emptyConfig_def envReleaseBranch_def envVersionFile_def envVPrefix_def
  envCommand_def envTemplate_def configReleaseBranch_def configVersionFile_def configVPrefix_def
  configCommand_def configTemplate_def

subsection \<open>Claims about Reload\<close>

text \<open>
  C1. The claim: a setting found neither in the environment nor in the store is null after
  \<open>Reload\<close>, even if it was populated before. The code assigns a field only inside the
  branch that found a value, so this fails: a release branch resolved by a first \<open>Reload\<close>
  from the environment is still there, with its source, after a second \<open>Reload\<close> that
  finds the variable unset and the store without the key.
\<close>

theorem Reload_resets_unfound_counterexample:
  "os_Getenv memsys envReleaseBranch (world0 [] [] 0) = ''''
   \<and> isl (gitconfig_Get memsys (gitconfig emptyConfig) configReleaseBranch (world0 [] [] 0))
   \<and> releaseBranch
         (fst (snd (Reload memsys (world0 [] [] 0)
            (fst (snd (Reload memsys (world0 [(envReleaseBranch, ''main'')] [] 0) emptyConfig))))))
       = Some \<lparr>cv_value = ''main'', cv_source = srcEnv\<rparr>
   \<and> releaseBranch
         (fst (snd (Reload memsys (world0 [] [] 0)
            (fst (snd (Reload memsys (world0 [(envReleaseBranch, ''main'')] [] 0) emptyConfig))))))
       \<noteq> None"
  by (simp add: Reload_parts pickString_def world_defs)

text \<open>
  C1, as the code has it: for each of the five settings, when its environment variable
  is empty or unset and the store lookup for its key fails, the field after \<open>Reload\<close> is the
  field before it (null only if it was null before).
\<close>

theorem Reload_unfound_field_unchanged:
  assumes "Reload ops w cfg = (err, cfg', tr)"
  shows
    "(os_Getenv ops envReleaseBranch w = ''''
        \<and> isl (gitconfig_Get ops (gitconfig cfg) configReleaseBranch w)
        \<longrightarrow> releaseBranch cfg' = releaseBranch cfg)
     \<and> (os_Getenv ops envVersionFile w = ''''
        \<and> isl (gitconfig_Get ops (gitconfig cfg) configVersionFile w)
        \<longrightarrow> versionFile cfg' = versionFile cfg)
     \<and> (os_Getenv ops envVPrefix w = ''''
        \<and> isl (gitconfig_Bool ops (gitconfig cfg) configVPrefix w)
        \<longrightarrow> vPrefix cfg' = vPrefix cfg)
     \<and> (os_Getenv ops envCommand w = ''''
        \<and> isl (gitconfig_Get ops (gitconfig cfg) configCommand w)
        \<longrightarrow> command cfg' = command cfg)
     \<and> (os_Getenv ops envTemplate w = ''''
        \<and> isl (gitconfig_Get ops (gitconfig cfg) configTemplate w)
        \<longrightarrow> template cfg' = template cfg)"
proof -
  note r = Reload_result [OF assms]
  have rb: "e = '''' \<and> isl g \<longrightarrow> pickString e g old = old" for e g old
    by (cases g) (simp_all add: pickString_def)
  have vp: "e = '''' \<and> isl g \<longrightarrow> pickBool e g old = Inr old" for e g old
    by (cases g) (simp_all add: pickBool_def)
  show ?thesis
    using rb vp by (simp add: r Reload_parts split: sum.splits)
qed

theorem Reload_unfound_field_unchanged_witness:
  "Reload memsys (world0 [] [] 0)
      (emptyConfig\<lparr>releaseBranch := Some \<lparr>cv_value = ''main'', cv_source = srcDetect\<rparr>,
                   vPrefix := Some True\<rparr>)
     = (None,
        emptyConfig\<lparr>releaseBranch := Some \<lparr>cv_value = ''main'', cv_source = srcDetect\<rparr>,
                    vPrefix := Some True\<rparr>,
        [EvGet configReleaseBranch, EvGet configVersionFile, EvBool configVPrefix,
         EvGet configCommand, EvGet configTemplate])
   \<and> os_Getenv memsys envReleaseBranch (world0 [] [] 0) = ''''
   \<and> isl (gitconfig_Get memsys (gitconfig emptyConfig) configReleaseBranch (world0 [] [] 0))
   \<and> os_Getenv memsys envVPrefix (world0 [] [] 0) = ''''
   \<and> isl (gitconfig_Bool memsys (gitconfig emptyConfig) configVPrefix (world0 [] [] 0))"
proof -
  let ?cfg = "emptyConfig\<lparr>releaseBranch := Some \<lparr>cv_value = ''main'', cv_source = srcDetect\<rparr>,
                   vPrefix := Some True\<rparr>"
  obtain err cfg' tr where run: "Reload memsys (world0 [] [] 0) ?cfg = (err, cfg', tr)"
    by (cases "Reload memsys (world0 [] [] 0) ?cfg") blast
  have env: "os_Getenv memsys envReleaseBranch (world0 [] [] 0) = ''''"
    "os_Getenv memsys envVersionFile (world0 [] [] 0) = ''''"
    "os_Getenv memsys envVPrefix (world0 [] [] 0) = ''''"
    "os_Getenv memsys envCommand (world0 [] [] 0) = ''''"
    "os_Getenv memsys envTemplate (world0 [] [] 0) = ''''"
    by (simp_all add: memsys_def world0_def)
  have store: "isl (gitconfig_Get memsys h k (world0 [] [] 0))"
    "isl (gitconfig_Bool memsys h k (world0 [] [] 0))" for h k
    by (simp_all add: memsys_def world0_def)
  have fields: "releaseBranch cfg' = releaseBranch ?cfg" "versionFile cfg' = versionFile ?cfg"
    "vPrefix cfg' = vPrefix ?cfg" "command cfg' = command ?cfg" "template cfg' = template ?cfg"
    using Reload_unfound_field_unchanged [OF run] env store by simp_all
  have rest: "conf cfg' = conf ?cfg" "gitconfig cfg' = gitconfig ?cfg" "err = None"
    "tr = [EvGet configReleaseBranch, EvGet configVersionFile, EvBool configVPrefix,
         EvGet configCommand, EvGet configTemplate]"
    using Reload_result [OF run] env store [of "gitconfig ?cfg" configVPrefix]
    by (auto simp add: Reload_closed pickBool_def asked_def split: sum.splits)
  have "cfg' = ?cfg"
    using fields rest by (cases cfg') (simp add: emptyConfig_def)
  then show ?thesis
    using run rest env store by simp
qed

text \<open>
  C2. The claim: for every string setting, a non-empty environment variable gives the
  field after \<open>Reload\<close>. For the command (and the template) this fails when
  \<open>TAGPR_VPREFIX\<close> does not parse: \<open>Reload\<close> returns before their blocks, and the field
  keeps what it held (here nil, in a resolver just built).
\<close>

theorem Reload_environment_wins_counterexample:
  "os_Getenv memsys envCommand
      (world0 [(envCommand, ''make''), (envVPrefix, ''notabool'')] [] 0) = ''make''
   \<and> fst (newConfig memsys ''git''
            (world0 [(envCommand, ''make''), (envVPrefix, ''notabool'')] [] 0))
       = Some (NumError ''ParseBool'' ''notabool'')
   \<and> command (fst (snd (newConfig memsys ''git''
            (world0 [(envCommand, ''make''), (envVPrefix, ''notabool'')] [] 0)))) = None"
  by (simp add: newConfig_def Reload_parts pickString_def pickBool_def ParseBool_def world_defs)

text \<open>
  C2, as the code has it: a non-empty environment variable gives the release branch and
  the version file their value, with source environment, in every \<open>Reload\<close>; it gives the
  command and the template theirs in every \<open>Reload\<close> that returns no error, which is
  every \<open>Reload\<close> in which \<open>TAGPR_VPREFIX\<close> is empty or parses as a boolean, and in a
  \<open>Reload\<close> that returns an error these two fields are as before. In all cases the store
  is not asked for the key of a setting whose variable is non-empty.
\<close>

theorem Reload_environment_wins:
  assumes "Reload ops w cfg = (err, cfg', tr)"
  shows
    "(os_Getenv ops envReleaseBranch w \<noteq> '''' \<longrightarrow>
        releaseBranch cfg'
          = Some \<lparr>cv_value = os_Getenv ops envReleaseBranch w, cv_source = srcEnv\<rparr>
        \<and> EvGet configReleaseBranch \<notin> set tr)
     \<and> (os_Getenv ops envVersionFile w \<noteq> '''' \<longrightarrow>
        versionFile cfg'
          = Some \<lparr>cv_value = os_Getenv ops envVersionFile w, cv_source = srcEnv\<rparr>
        \<and> EvGet configVersionFile \<notin> set tr)
     \<and> (os_Getenv ops envCommand w \<noteq> '''' \<longrightarrow>
        EvGet configCommand \<notin> set tr
        \<and> (err = None \<longrightarrow>
             command cfg' = Some \<lparr>cv_value = os_Getenv ops envCommand w, cv_source = srcEnv\<rparr>)
        \<and> (err \<noteq> None \<longrightarrow> command cfg' = command cfg))
     \<and> (os_Getenv ops envTemplate w \<noteq> '''' \<longrightarrow>
        EvGet configTemplate \<notin> set tr
        \<and> (err = None \<longrightarrow>
             template cfg' = Some \<lparr>cv_value = os_Getenv ops envTemplate w, cv_source = srcEnv\<rparr>)
        \<and> (err \<noteq> None \<longrightarrow> template cfg' = template cfg))
     \<and> (err = None \<longleftrightarrow>
          os_Getenv ops envVPrefix w = '''' \<or> \<not> isl (ParseBool (os_Getenv ops envVPrefix w)))"
proof -
  note r = Reload_result [OF assms]
  let ?pb = "pickBool (os_Getenv ops envVPrefix w)
      (gitconfig_Bool ops (gitconfig cfg) configVPrefix w) (vPrefix cfg)"
  have ok: "(\<exists>vp. ?pb = Inr vp) \<longleftrightarrow>
      os_Getenv ops envVPrefix w = '''' \<or> \<not> isl (ParseBool (os_Getenv ops envVPrefix w))"
    by (cases "gitconfig_Bool ops (gitconfig cfg) configVPrefix w";
        cases "ParseBool (os_Getenv ops envVPrefix w)") (simp_all add: pickBool_def)
  have e: "err = None \<longleftrightarrow> (\<exists>vp. ?pb = Inr vp)"
    by (cases ?pb) (simp_all add: r Reload_err)
  have rb: "os_Getenv ops envReleaseBranch w \<noteq> '''' \<Longrightarrow>
      releaseBranch cfg'
        = Some \<lparr>cv_value = os_Getenv ops envReleaseBranch w, cv_source = srcEnv\<rparr>
      \<and> EvGet configReleaseBranch \<notin> set tr"
    by (cases ?pb) (simp_all add: r Reload_releaseBranch Reload_trace pickString_env in_asked
        config_keys_distinct)
  have vf: "os_Getenv ops envVersionFile w \<noteq> '''' \<Longrightarrow>
      versionFile cfg'
        = Some \<lparr>cv_value = os_Getenv ops envVersionFile w, cv_source = srcEnv\<rparr>
      \<and> EvGet configVersionFile \<notin> set tr"
    by (cases ?pb) (simp_all add: r Reload_versionFile Reload_trace pickString_env in_asked
        config_keys_distinct)
  have cm: "os_Getenv ops envCommand w \<noteq> '''' \<Longrightarrow>
      EvGet configCommand \<notin> set tr
      \<and> (err = None \<longrightarrow>
           command cfg' = Some \<lparr>cv_value = os_Getenv ops envCommand w, cv_source = srcEnv\<rparr>)
      \<and> (err \<noteq> None \<longrightarrow> command cfg' = command cfg)"
    by (cases ?pb) (simp_all add: r Reload_err Reload_command Reload_trace pickString_env in_asked
        config_keys_distinct)
  have tp: "os_Getenv ops envTemplate w \<noteq> '''' \<Longrightarrow>
      EvGet configTemplate \<notin> set tr
      \<and> (err = None \<longrightarrow>
           template cfg' = Some \<lparr>cv_value = os_Getenv ops envTemplate w, cv_source = srcEnv\<rparr>)
      \<and> (err \<noteq> None \<longrightarrow> template cfg' = template cfg)"
    by (cases ?pb) (simp_all add: r Reload_err Reload_template Reload_trace pickString_env in_asked
        config_keys_distinct)
  from rb vf cm tp e ok show ?thesis
    by blast
qed

theorem Reload_environment_wins_witness:
  "os_Getenv memsys envReleaseBranch envWorld = ''main''
   \<and> os_Getenv memsys envVersionFile envWorld = ''version.go''
   \<and> os_Getenv memsys envCommand envWorld = ''make''
   \<and> os_Getenv memsys envTemplate envWorld = ''tmpl.md''
   \<and> os_Getenv memsys envVPrefix envWorld = ''''
   \<and> gitconfig_Get memsys (gitconfig emptyConfig) configReleaseBranch envWorld = Inr ''develop''
   \<and> fst (Reload memsys envWorld emptyConfig) = None
   \<and> releaseBranch (fst (snd (Reload memsys envWorld emptyConfig)))
       = Some \<lparr>cv_value = ''main'', cv_source = srcEnv\<rparr>
   \<and> versionFile (fst (snd (Reload memsys envWorld emptyConfig)))
       = Some \<lparr>cv_value = ''version.go'', cv_source = srcEnv\<rparr>
   \<and> command (fst (snd (Reload memsys envWorld emptyConfig)))
       = Some \<lparr>cv_value = ''make'', cv_source = srcEnv\<rparr>
   \<and> template (fst (snd (Reload memsys envWorld emptyConfig)))
       = Some \<lparr>cv_value = ''tmpl.md'', cv_source = srcEnv\<rparr>
   \<and> EvGet configReleaseBranch \<notin> set (snd (snd (Reload memsys envWorld emptyConfig)))
   \<and> EvGet configVersionFile \<notin> set (snd (snd (Reload memsys envWorld emptyConfig)))
   \<and> EvGet configCommand \<notin> set (snd (snd (Reload memsys envWorld emptyConfig)))
   \<and> EvGet configTemplate \<notin> set (snd (snd (Reload memsys envWorld emptyConfig)))"
proof -
  let ?R = "Reload memsys envWorld emptyConfig"
  have run: "?R = (fst ?R, fst (snd ?R), snd (snd ?R))"
    by simp
  have env: "os_Getenv memsys envReleaseBranch envWorld = ''main''"
    "os_Getenv memsys envVersionFile envWorld = ''version.go''"
    "os_Getenv memsys envCommand envWorld = ''make''"
    "os_Getenv memsys envTemplate envWorld = ''tmpl.md''"
    "os_Getenv memsys envVPrefix envWorld = ''''"
    "gitconfig_Get memsys (gitconfig emptyConfig) configReleaseBranch envWorld = Inr ''develop''"
    by (simp_all add: envWorld_def world_defs)
  from Reload_environment_wins [OF run] env show ?thesis
    by simp
qed

text \<open>
  C3. The claim: with a \<open>TAGPR_VPREFIX\<close> that does not parse, \<open>Reload\<close> returns the error at
  once, and the release branch and the version file "have already been overwritten". The
  last part fails where their own lookup found nothing: the release branch set
  programmatically before is still there, with its programmatic source, after the failing
  \<open>Reload\<close>.
\<close>

theorem Reload_malformed_vPrefix_counterexample:
  "os_Getenv memsys envVPrefix badBoolWorld = ''notabool''
   \<and> ParseBool ''notabool'' = Inl (NumError ''ParseBool'' ''notabool'')
   \<and> fst (Reload memsys badBoolWorld detectedConfig) = Some (NumError ''ParseBool'' ''notabool'')
   \<and> releaseBranch detectedConfig = Some \<lparr>cv_value = ''main'', cv_source = srcDetect\<rparr>
   \<and> releaseBranch (fst (snd (Reload memsys badBoolWorld detectedConfig)))
       = Some \<lparr>cv_value = ''main'', cv_source = srcDetect\<rparr>"
  by (simp add: Reload_parts pickString_def pickBool_def ParseBool_def badBoolWorld_def
      detectedConfig_def world_defs)

text \<open>
  C3, as the code has it: with a non-empty \<open>TAGPR_VPREFIX\<close> that does not parse as a
  boolean, \<open>Reload\<close> returns the parse error; the boolean, the command and the template are
  as before the call; the store is asked neither for the boolean nor for the command or
  the template; and the release branch and the version file hold what their own lookup
  gives (\<open>pickString\<close>: the environment value, else the store value, else the value the
  field had), with no rollback.
\<close>

theorem Reload_malformed_vPrefix_aborts:
  assumes "os_Getenv ops envVPrefix w \<noteq> ''''"
    and "ParseBool (os_Getenv ops envVPrefix w) = Inl e"
    and "Reload ops w cfg = (err, cfg', tr)"
  shows
    "err = Some e
     \<and> vPrefix cfg' = vPrefix cfg \<and> command cfg' = command cfg \<and> template cfg' = template cfg
     \<and> EvBool configVPrefix \<notin> set tr
     \<and> EvGet configCommand \<notin> set tr \<and> EvGet configTemplate \<notin> set tr
     \<and> tr = asked (os_Getenv ops envReleaseBranch w) (EvGet configReleaseBranch)
             @ asked (os_Getenv ops envVersionFile w) (EvGet configVersionFile)
     \<and> releaseBranch cfg'
         = pickString (os_Getenv ops envReleaseBranch w)
             (gitconfig_Get ops (gitconfig cfg) configReleaseBranch w) (releaseBranch cfg)
     \<and> versionFile cfg'
         = pickString (os_Getenv ops envVersionFile w)
             (gitconfig_Get ops (gitconfig cfg) configVersionFile w) (versionFile cfg)"
proof -
  note r = Reload_result [OF assms(3)]
  have pb: "pickBool (os_Getenv ops envVPrefix w)
      (gitconfig_Bool ops (gitconfig cfg) configVPrefix w) (vPrefix cfg) = Inl e"
    using assms(1,2) by (simp add: pickBool_def)
  show ?thesis
    by (simp add: r Reload_parts pb in_asked config_keys_distinct)
qed

theorem Reload_malformed_vPrefix_aborts_witness:
  "os_Getenv memsys envVPrefix badBoolWorld \<noteq> ''''
   \<and> ParseBool (os_Getenv memsys envVPrefix badBoolWorld) = Inl (NumError ''ParseBool'' ''notabool'')
   \<and> Reload memsys badBoolWorld detectedConfig
       = (Some (NumError ''ParseBool'' ''notabool''),
          detectedConfig\<lparr>versionFile :=
            Some \<lparr>cv_value = ''version.go'', cv_source = srcConfigFile\<rparr>\<rparr>,
          [EvGet configReleaseBranch, EvGet configVersionFile])"
proof -
  let ?R = "Reload memsys badBoolWorld detectedConfig"
  have run: "?R = (fst ?R, fst (snd ?R), snd (snd ?R))"
    by simp
  have env: "os_Getenv memsys envVPrefix badBoolWorld \<noteq> ''''"
    by (simp add: badBoolWorld_def world_defs)
  have pe: "ParseBool (os_Getenv memsys envVPrefix badBoolWorld)
      = Inl (NumError ''ParseBool'' ''notabool'')"
    by (simp add: badBoolWorld_def ParseBool_def world_defs)
  have look: "os_Getenv memsys envReleaseBranch badBoolWorld = ''''"
    "os_Getenv memsys envVersionFile badBoolWorld = ''''"
    "gitconfig_Get memsys h configReleaseBranch badBoolWorld = Inl (ExternalError ''exit status 1'')"
    "gitconfig_Get memsys h configVersionFile badBoolWorld = Inr ''version.go''" for h
    by (simp_all add: badBoolWorld_def world_defs)
  have rest: "conf (fst (snd ?R)) = conf detectedConfig"
    "gitconfig (fst (snd ?R)) = gitconfig detectedConfig"
    by (simp_all add: Reload_closed split: sum.splits)
  have "fst (snd ?R)
      = detectedConfig\<lparr>versionFile :=
            Some \<lparr>cv_value = ''version.go'', cv_source = srcConfigFile\<rparr>\<rparr>"
    using Reload_malformed_vPrefix_aborts [OF env pe run] rest look
    by (cases "fst (snd ?R)") (simp add: pickString_def detectedConfig_def emptyConfig_def)
  moreover have "fst ?R = Some (NumError ''ParseBool'' ''notabool'')"
    "snd (snd ?R) = [EvGet configReleaseBranch, EvGet configVersionFile]"
    using Reload_malformed_vPrefix_aborts [OF env pe run] look by (simp_all add: asked_def)
  ultimately have "?R = (Some (NumError ''ParseBool'' ''notabool''),
          detectedConfig\<lparr>versionFile :=
            Some \<lparr>cv_value = ''version.go'', cv_source = srcConfigFile\<rparr>\<rparr>,
          [EvGet configReleaseBranch, EvGet configVersionFile])"
    by (metis prod.collapse)
  with env pe show ?thesis
    by simp
qed

text \<open>
  C9. \<open>Reload\<close> is idempotent while the environment and the store answer the same: run on
  the resolver a first \<open>Reload\<close> left, it returns the same error, the same resolver (all
  five fields with their sources) and makes the same store lookups.
\<close>

theorem Reload_idempotent:
  "Reload ops w (fst (snd (Reload ops w cfg))) = Reload ops w cfg"
proof (cases "pickBool (os_Getenv ops envVPrefix w)
    (gitconfig_Bool ops (gitconfig cfg) configVPrefix w) (vPrefix cfg)")
  case (Inl err)
  then show ?thesis
    by (simp add: Reload_closed pickString_idem pickBool_Inl [OF Inl])
next
  case (Inr vp)
  then show ?thesis
    by (simp add: Reload_closed pickString_idem pickBool_idem [OF Inr])
qed

subsection \<open>Claims about resolved values\<close>

text \<open>
  C6. \<open>String\<close> is the empty string when the raw text is the sentinel \<open>-\<close> and the raw
  text itself otherwise, and \<open>Empty\<close> holds exactly when \<open>String\<close> is the empty string:
  that is, exactly when the raw text is the sentinel or empty.
\<close>

theorem String_Empty_sentinel:
  "String cv = (if cv_value cv = ''-'' then '''' else cv_value cv)
   \<and> (Empty cv \<longleftrightarrow> String cv = '''')
   \<and> (Empty cv \<longleftrightarrow> cv_value cv = ''-'' \<or> cv_value cv = '''')
   \<and> String \<lparr>cv_value = ''-'', cv_source = src\<rparr> = ''''
   \<and> String \<lparr>cv_value = '' Main '', cv_source = src\<rparr> = '' Main ''"
  by (simp add: String_def Empty_def)

end
